theory Spec2Isabelle
  imports Main
begin

section \<open>Validation rules of pkg/apis/monitoring/v1/types.go\<close>

text \<open>
  The Go validators return \<^verbatim>\<open>error\<close>: \<^verbatim>\<open>nil\<close> on success, otherwise a pointer to one
  of five error structs, each holding one message string. The model returns
  \<open>error option\<close>, \<open>None\<close> for \<^verbatim>\<open>nil\<close>; the constructor is the Go error type and its
  argument the \<^verbatim>\<open>err\<close> field.

  A Go pointer field (\<^verbatim>\<open>*T\<close>) is an \<open>option\<close>: \<open>None\<close> is \<^verbatim>\<open>nil\<close>. A Go \<^verbatim>\<open>string\<close> is a
  \<open>string\<close> (a list of bytes). Every \<^verbatim>\<open>Validate\<close> method has a pointer receiver; apart
  from \<^verbatim>\<open>SafeAuthorization.Validate\<close>, which tests its receiver against \<^verbatim>\<open>nil\<close>, the
  model takes the struct the receiver points to.
\<close>

datatype error =
    ProbeTargetsValidationError string
  | OAuth2ValidationError string
  | SecretOrConfigMapValidationError string
  | TLSConfigValidationError string
  | AuthorizationValidationError string

fun Error :: "error \<Rightarrow> string" where
  "Error (ProbeTargetsValidationError err) = err"
| "Error (OAuth2ValidationError err) = err"
| "Error (SecretOrConfigMapValidationError err) = err"
| "Error (TLSConfigValidationError err) = err"
| "Error (AuthorizationValidationError err) = err"

subsection \<open>Kubernetes key selectors\<close>

text \<open>
  \<^verbatim>\<open>v1.SecretKeySelector\<close> and \<^verbatim>\<open>v1.ConfigMapKeySelector\<close> come from k8s.io/api/core/v1.
  Both hold the name of the referent, the key to select and an optional flag
  (\<^verbatim>\<open>*bool\<close>), in this order. No validator reads inside them.
\<close>

datatype SecretKeySelector = SecretKeySelector string string "bool option"

datatype ConfigMapKeySelector = ConfigMapKeySelector string string "bool option"

subsection \<open>SecretOrConfigMap\<close>

record SecretOrConfigMap =
  Secret :: "SecretKeySelector option"
  ConfigMap :: "ConfigMapKeySelector option"

text \<open>The zero value \<^verbatim>\<open>SecretOrConfigMap{}\<close>, against which the validators compare.\<close>

definition SecretOrConfigMap_zero :: SecretOrConfigMap where
  "SecretOrConfigMap_zero = \<lparr>Secret = None, ConfigMap = None\<rparr>"

definition SecretOrConfigMap_Validate :: "SecretOrConfigMap \<Rightarrow> error option" where
  "SecretOrConfigMap_Validate c =
     (if Secret c \<noteq> None \<and> ConfigMap c \<noteq> None
      then Some (SecretOrConfigMapValidationError
                   ''SecretOrConfigMap can not specify both Secret and ConfigMap'')
      else None)"

subsection \<open>Sequencing of checks\<close>

text \<open>
  A check that returns its error at once, followed by the rest of the function body:
  the rest runs only when the check found nothing.
\<close>

definition or_else :: "error option \<Rightarrow> error option \<Rightarrow> error option" where
  "or_else r rest = (case r of Some err \<Rightarrow> Some err | None \<Rightarrow> rest)"

subsection \<open>SafeTLSConfig and TLSConfig\<close>

record SafeTLSConfig =
  CA :: SecretOrConfigMap
  Cert :: SecretOrConfigMap
  KeySecret :: "SecretKeySelector option"
  ServerName :: string
  InsecureSkipVerify :: bool

definition SafeTLSConfig_Validate :: "'a SafeTLSConfig_scheme \<Rightarrow> error option" where
  "SafeTLSConfig_Validate c =
     or_else (if CA c \<noteq> SecretOrConfigMap_zero then SecretOrConfigMap_Validate (CA c) else None)
    (or_else (if Cert c \<noteq> SecretOrConfigMap_zero then SecretOrConfigMap_Validate (Cert c) else None)
    (if Cert c \<noteq> SecretOrConfigMap_zero \<and> KeySecret c = None
     then Some (TLSConfigValidationError ''client cert specified without client key'')
     else if KeySecret c \<noteq> None \<and> Cert c = SecretOrConfigMap_zero
     then Some (TLSConfigValidationError ''client key specified without client cert'')
     else None))"

text \<open>\<^verbatim>\<open>TLSConfig\<close> embeds \<^verbatim>\<open>SafeTLSConfig\<close>, whose fields it promotes.\<close>

record TLSConfig = SafeTLSConfig +
  CAFile :: string
  CertFile :: string
  KeyFile :: string

text \<open>The two local variables of \<^verbatim>\<open>TLSConfig.Validate\<close>.\<close>

definition hasCert :: "'a TLSConfig_scheme \<Rightarrow> bool" where
  "hasCert c \<longleftrightarrow> CertFile c \<noteq> '''' \<or> Cert c \<noteq> SecretOrConfigMap_zero"

definition hasKey :: "'a TLSConfig_scheme \<Rightarrow> bool" where
  "hasKey c \<longleftrightarrow> KeyFile c \<noteq> '''' \<or> KeySecret c \<noteq> None"

definition TLSConfig_Validate :: "'a TLSConfig_scheme \<Rightarrow> error option" where
  "TLSConfig_Validate c =
     or_else (if CA c \<noteq> SecretOrConfigMap_zero then
                (if CAFile c \<noteq> ''''
                 then Some (TLSConfigValidationError ''tls config can not both specify CAFile and CA'')
                 else if SecretOrConfigMap_Validate (CA c) \<noteq> None
                 then Some (TLSConfigValidationError ''tls config CA is invalid'')
                 else None)
              else None)
    (or_else (if Cert c \<noteq> SecretOrConfigMap_zero then
                (if CertFile c \<noteq> ''''
                 then Some (TLSConfigValidationError ''tls config can not both specify CertFile and Cert'')
                 else if SecretOrConfigMap_Validate (Cert c) \<noteq> None
                 then Some (TLSConfigValidationError ''tls config Cert is invalid'')
                 else None)
              else None)
    (if KeyFile c \<noteq> '''' \<and> KeySecret c \<noteq> None
     then Some (TLSConfigValidationError ''tls config can not both specify KeyFile and KeySecret'')
     else if hasCert c \<and> \<not> hasKey c
     then Some (TLSConfigValidationError ''tls config can not specify client cert without client key'')
     else if hasKey c \<and> \<not> hasCert c
     then Some (TLSConfigValidationError ''tls config can not specify client key without client cert'')
     else None))"

subsection \<open>OAuth2\<close>

record OAuth2 =
  ClientID :: SecretOrConfigMap
  ClientSecret :: SecretKeySelector
  TokenURL :: string
  Scopes :: "string list"
  EndpointParams :: "string \<rightharpoonup> string"

text \<open>\<^verbatim>\<open>fmt.Sprintf\<close> with the one verb \<^verbatim>\<open>%s\<close> at the end appends its argument.\<close>

definition OAuth2_Validate :: "OAuth2 \<Rightarrow> error option" where
  "OAuth2_Validate oa =
     (if TokenURL oa = ''''
      then Some (OAuth2ValidationError ''OAuth2 token url must be specified'')
      else if ClientID oa = SecretOrConfigMap_zero
      then Some (OAuth2ValidationError ''OAuth2 client id must be specified'')
      else (case SecretOrConfigMap_Validate (ClientID oa) of
              Some err \<Rightarrow> Some (OAuth2ValidationError (''invalid OAuth2 client id: '' @ Error err))
            | None \<Rightarrow> None))"

subsection \<open>ProbeTargets\<close>

text \<open>
  \<^verbatim>\<open>Validate\<close> only tests the two pointers against \<^verbatim>\<open>nil\<close>; the structs they point to
  (\<^verbatim>\<open>ProbeTargetStaticConfig\<close>, \<^verbatim>\<open>ProbeTargetIngress\<close>) are type parameters.
\<close>

record ('static, 'ingress) ProbeTargets =
  StaticConfig :: "'static option"
  Ingress :: "'ingress option"

definition ProbeTargets_Validate :: "('static, 'ingress) ProbeTargets \<Rightarrow> error option" where
  "ProbeTargets_Validate it =
     (if StaticConfig it = None \<and> Ingress it = None
      then Some (ProbeTargetsValidationError
        ''at least one of .spec.targets.staticConfig and .spec.targets.ingress is required'')
      else None)"

subsection \<open>SafeAuthorization and Authorization\<close>










subsection \<open>ObjectReference\<close>

definition PrometheusesKind :: string where "PrometheusesKind = ''Prometheus''"
definition PrometheusName :: string where "PrometheusName = ''prometheuses''"
definition AlertmanagersKind :: string where "AlertmanagersKind = ''Alertmanager''"
definition AlertmanagerName :: string where "AlertmanagerName = ''alertmanagers''"
definition ServiceMonitorsKind :: string where "ServiceMonitorsKind = ''ServiceMonitor''"
definition ServiceMonitorName :: string where "ServiceMonitorName = ''servicemonitors''"
definition PodMonitorsKind :: string where "PodMonitorsKind = ''PodMonitor''"
definition PodMonitorName :: string where "PodMonitorName = ''podmonitors''"
definition PrometheusRuleKind :: string where "PrometheusRuleKind = ''CustomPrometheusRule''"
definition PrometheusRuleName :: string where "PrometheusRuleName = ''customprometheusrules''"
definition ProbesKind :: string where "ProbesKind = ''Probe''"
definition ProbeName :: string where "ProbeName = ''probes''"

text \<open>The map literal, in the order of the source; its keys are distinct constants.\<close>

definition resourceToKind :: "(string \<times> string) list" where
  "resourceToKind =
     [(PrometheusName, PrometheusesKind),
      (AlertmanagerName, AlertmanagersKind),
      (ServiceMonitorName, ServiceMonitorsKind),
      (PodMonitorName, PodMonitorsKind),
      (PrometheusRuleName, PrometheusRuleKind),
      (ProbeName, ProbesKind)]"

text \<open>
  The two forms of a Go map read: \<^verbatim>\<open>_, found := m[k]\<close> and \<^verbatim>\<open>m[k]\<close>, which gives the
  zero value (the empty string) for a key that is not in the map.
\<close>

definition map_found :: "(string \<times> string) list \<Rightarrow> string \<Rightarrow> bool" where
  "map_found m k \<longleftrightarrow> map_of m k \<noteq> None"

definition map_index :: "(string \<times> string) list \<Rightarrow> string \<Rightarrow> string" where
  "map_index m k = (case map_of m k of Some v \<Rightarrow> v | None \<Rightarrow> '''')"

text \<open>
  Modelled from the spec: \<^verbatim>\<open>monitoring.GroupName\<close> is declared in package
  \<^verbatim>\<open>pkg/apis/monitoring\<close>, which is not among the sources; the spec calls it a fixed
  constant to which the group defaults, and the comment on the \<^verbatim>\<open>Group\<close> field gives
  its value.
\<close>

definition GroupName :: string where
  "GroupName = ''monitoring.coreos.com''"

text \<open>\<^verbatim>\<open>schema.GroupKind\<close> of k8s.io/apimachinery.\<close>

record schema_GroupKind =
  Group :: string
  Kind :: string

record ObjectReference =
  Group :: string
  Resource :: string
  Namespace :: string
  Name :: string

definition getGroup :: "ObjectReference \<Rightarrow> string" where
  "getGroup obj = (if ObjectReference.Group obj = '''' then GroupName else ObjectReference.Group obj)"

text \<open>
  A panic is the left summand of the result. The panic of \<^verbatim>\<open>GroupKind\<close> carries the
  message \<^verbatim>\<open>fmt.Sprintf("failed to map resource %q to a kind", obj.Resource)\<close>; the
  model keeps the resource name that the message quotes.
\<close>

datatype panic = FailedToMapResource string

definition GroupKind :: "ObjectReference \<Rightarrow> panic + schema_GroupKind" where
  "GroupKind obj =
     (if \<not> map_found resourceToKind (Resource obj)
      then Inl (FailedToMapResource (Resource obj))
      else Inr \<lparr>schema_GroupKind.Group = getGroup obj,
                Kind = map_index resourceToKind (Resource obj)\<rparr>)"

text \<open>
  The kubebuilder markers on the fields of \<^verbatim>\<open>ObjectReference\<close>, from which the schema
  of the custom resource is generated: the allowed values of \<^verbatim>\<open>Group\<close> and of
  \<^verbatim>\<open>Resource\<close> (\<^verbatim>\<open>Enum\<close>), and \<^verbatim>\<open>MinLength=1\<close> on \<^verbatim>\<open>Namespace\<close>.
\<close>

definition Group_Enum :: "string list" where
  "Group_Enum = [''monitoring.coreos.com'']"

definition Resource_Enum :: "string list" where
  "Resource_Enum = [''prometheusrules'', ''servicemonitors'', ''podmonitors'', ''probes'']"

definition schema_valid :: "ObjectReference \<Rightarrow> bool" where
  "schema_valid obj \<longleftrightarrow>
     ObjectReference.Group obj \<in> set Group_Enum
     \<and> Resource obj \<in> set Resource_Enum
     \<and> 1 \<le> length (Namespace obj)"

subsection \<open>Example values\<close>

text \<open>
  A TLS configuration whose CA selector names both a secret and a config map, with a
  client certificate file and no client key.
\<close>

definition tls_ca_both_refs :: TLSConfig where
  "tls_ca_both_refs =
     \<lparr>CA = \<lparr>Secret = Some (SecretKeySelector ''ca'' ''ca.crt'' None),
             ConfigMap = Some (ConfigMapKeySelector ''ca'' ''ca.crt'' None)\<rparr>,
      Cert = \<lparr>Secret = None, ConfigMap = None\<rparr>,
      KeySecret = None, ServerName = '''', InsecureSkipVerify = False,
      CAFile = '''', CertFile = ''/etc/cert.pem'', KeyFile = ''''\<rparr>"


text \<open>A reference that the markers on \<^verbatim>\<open>ObjectReference\<close> accept.\<close>

definition ref_prometheusrules :: ObjectReference where
  "ref_prometheusrules =
     \<lparr>Group = ''monitoring.coreos.com'', Resource = ''prometheusrules'',
      Namespace = ''default'', Name = ''''\<rparr>"

section \<open>Properties\<close>

subsection \<open>Auxiliary facts\<close>

lemma SecretOrConfigMap_zero_iff:
  "c = SecretOrConfigMap_zero \<longleftrightarrow> Secret c = None \<and> ConfigMap c = None"
  by (cases c) (simp add: SecretOrConfigMap_zero_def)

lemma or_else_None [simp]: "or_else None rest = rest"
  by (simp add: or_else_def)

lemma or_else_Some [simp]: "or_else (Some err) rest = Some err"
  by (simp add: or_else_def)




lemmas resource_names = PrometheusName_def AlertmanagerName_def ServiceMonitorName_def
  PodMonitorName_def PrometheusRuleName_def ProbeName_def

lemma distinct_resourceToKind: "distinct (map fst resourceToKind)"
  by (simp add: resourceToKind_def resource_names)

subsection \<open>SecretOrConfigMap\<close>

text \<open>
  C4. Validation of a secret-or-configmap selector fails if and only if both the
  secret reference and the config-map reference are populated, and then with the
  conflicting-reference error; a selector with exactly one reference, or with none,
  passes.
\<close>

theorem SecretOrConfigMap_Validate_fails_iff_both:
  "(SecretOrConfigMap_Validate c =
      Some (SecretOrConfigMapValidationError
        ''SecretOrConfigMap can not specify both Secret and ConfigMap'')
    \<longleftrightarrow> Secret c \<noteq> None \<and> ConfigMap c \<noteq> None)
   \<and> (SecretOrConfigMap_Validate c = None \<longleftrightarrow> \<not> (Secret c \<noteq> None \<and> ConfigMap c \<noteq> None))"
  by (simp add: SecretOrConfigMap_Validate_def)

text \<open>C4 at three selectors: both references, the secret alone, none.\<close>

theorem SecretOrConfigMap_Validate_fails_iff_both_witness:
  "SecretOrConfigMap_Validate
     \<lparr>Secret = Some (SecretKeySelector ''s'' ''k'' None),
      ConfigMap = Some (ConfigMapKeySelector ''m'' ''k'' None)\<rparr>
     = Some (SecretOrConfigMapValidationError
         ''SecretOrConfigMap can not specify both Secret and ConfigMap'')
   \<and> SecretOrConfigMap_Validate
       \<lparr>Secret = Some (SecretKeySelector ''s'' ''k'' None), ConfigMap = None\<rparr> = None
   \<and> SecretOrConfigMap_Validate \<lparr>Secret = None, ConfigMap = None\<rparr> = None"
  using SecretOrConfigMap_Validate_fails_iff_both
      [of "\<lparr>Secret = Some (SecretKeySelector ''s'' ''k'' None),
            ConfigMap = Some (ConfigMapKeySelector ''m'' ''k'' None)\<rparr>"]
    SecretOrConfigMap_Validate_fails_iff_both
      [of "\<lparr>Secret = Some (SecretKeySelector ''s'' ''k'' None), ConfigMap = None\<rparr>"]
    SecretOrConfigMap_Validate_fails_iff_both [of "\<lparr>Secret = None, ConfigMap = None\<rparr>"]
  by simp

subsection \<open>SafeTLSConfig\<close>

text \<open>
  C3. For a safe TLS configuration whose CA and Cert selectors are themselves valid,
  validation fails if and only if exactly one of the Cert selector and the key secret
  is populated: with the missing-key error when the certificate is set without the
  key, with the missing-certificate error when the key is set without the
  certificate. With both empty or both populated it passes.
\<close>

theorem SafeTLSConfig_Validate_cert_key_pairing:
  assumes "SecretOrConfigMap_Validate (CA c) = None"
    and "SecretOrConfigMap_Validate (Cert c) = None"
  shows "(SafeTLSConfig_Validate c \<noteq> None
            \<longleftrightarrow> (Cert c \<noteq> SecretOrConfigMap_zero) \<noteq> (KeySecret c \<noteq> None))
    \<and> (Cert c \<noteq> SecretOrConfigMap_zero \<and> KeySecret c = None \<longrightarrow>
          SafeTLSConfig_Validate c =
            Some (TLSConfigValidationError ''client cert specified without client key''))
    \<and> (KeySecret c \<noteq> None \<and> Cert c = SecretOrConfigMap_zero \<longrightarrow>
          SafeTLSConfig_Validate c =
            Some (TLSConfigValidationError ''client key specified without client cert''))"
  using assms by (simp add: SafeTLSConfig_Validate_def)

text \<open>C3 at a configuration with a CA config map, a certificate secret and no key.\<close>

theorem SafeTLSConfig_Validate_cert_key_pairing_witness:
  "SafeTLSConfig_Validate
     \<lparr>CA = \<lparr>Secret = None, ConfigMap = Some (ConfigMapKeySelector ''ca-bundle'' ''ca.crt'' None)\<rparr>,
      Cert = \<lparr>Secret = Some (SecretKeySelector ''tls'' ''tls.crt'' None), ConfigMap = None\<rparr>,
      KeySecret = None, ServerName = ''example.com'', InsecureSkipVerify = False\<rparr>
   = Some (TLSConfigValidationError ''client cert specified without client key'')"
  using SafeTLSConfig_Validate_cert_key_pairing
    [of "\<lparr>CA = \<lparr>Secret = None, ConfigMap = Some (ConfigMapKeySelector ''ca-bundle'' ''ca.crt'' None)\<rparr>,
      Cert = \<lparr>Secret = Some (SecretKeySelector ''tls'' ''tls.crt'' None), ConfigMap = None\<rparr>,
      KeySecret = None, ServerName = ''example.com'', InsecureSkipVerify = False\<rparr>"]
  by (simp add: SecretOrConfigMap_Validate_def SecretOrConfigMap_zero_def)

subsection \<open>TLSConfig\<close>

text \<open>
  C2. For each of the slots CA, Cert and Key of a TLS configuration with file
  parameters: when the reference and the file path of the slot are both populated,
  validation returns an error, whatever the other fields hold.
\<close>

theorem TLSConfig_Validate_slot_conflict:
  "(CA c \<noteq> SecretOrConfigMap_zero \<and> CAFile c \<noteq> '''' \<longrightarrow> TLSConfig_Validate c \<noteq> None)
   \<and> (Cert c \<noteq> SecretOrConfigMap_zero \<and> CertFile c \<noteq> '''' \<longrightarrow> TLSConfig_Validate c \<noteq> None)
   \<and> (KeySecret c \<noteq> None \<and> KeyFile c \<noteq> '''' \<longrightarrow> TLSConfig_Validate c \<noteq> None)"
  by (simp add: TLSConfig_Validate_def)

text \<open>C2 at a configuration whose only conflict is in the Key slot.\<close>

theorem TLSConfig_Validate_slot_conflict_witness:
  "TLSConfig_Validate
     \<lparr>CA = \<lparr>Secret = None, ConfigMap = None\<rparr>,
      Cert = \<lparr>Secret = Some (SecretKeySelector ''tls'' ''tls.crt'' None), ConfigMap = None\<rparr>,
      KeySecret = Some (SecretKeySelector ''tls'' ''tls.key'' None),
      ServerName = '''', InsecureSkipVerify = False,
      CAFile = ''/etc/ca.pem'', CertFile = '''', KeyFile = ''/etc/key.pem''\<rparr>
   \<noteq> None"
  using TLSConfig_Validate_slot_conflict
    [of "\<lparr>CA = \<lparr>Secret = None, ConfigMap = None\<rparr>,
      Cert = \<lparr>Secret = Some (SecretKeySelector ''tls'' ''tls.crt'' None), ConfigMap = None\<rparr>,
      KeySecret = Some (SecretKeySelector ''tls'' ''tls.key'' None),
      ServerName = '''', InsecureSkipVerify = False,
      CAFile = ''/etc/ca.pem'', CertFile = '''', KeyFile = ''/etc/key.pem''\<rparr>"]
  by simp

text \<open>
  C1, as stated, fails. The example passes the three mutual-exclusion checks and has a
  certificate without a key, yet validation reports that the CA selector is invalid,
  not the incomplete pair: between the mutual-exclusion checks the code validates the
  CA and Cert selectors themselves.
\<close>

theorem TLSConfig_Validate_completeness_counterexample:
  "\<not> (CA tls_ca_both_refs \<noteq> SecretOrConfigMap_zero \<and> CAFile tls_ca_both_refs \<noteq> '''')
   \<and> \<not> (Cert tls_ca_both_refs \<noteq> SecretOrConfigMap_zero \<and> CertFile tls_ca_both_refs \<noteq> '''')
   \<and> \<not> (KeySecret tls_ca_both_refs \<noteq> None \<and> KeyFile tls_ca_both_refs \<noteq> '''')
   \<and> hasCert tls_ca_both_refs \<and> \<not> hasKey tls_ca_both_refs
   \<and> TLSConfig_Validate tls_ca_both_refs = Some (TLSConfigValidationError ''tls config CA is invalid'')
   \<and> TLSConfig_Validate tls_ca_both_refs \<notin>
       {Some (TLSConfigValidationError ''tls config can not specify client cert without client key''),
        Some (TLSConfigValidationError ''tls config can not specify client key without client cert'')}"
  by (simp add: tls_ca_both_refs_def TLSConfig_Validate_def SecretOrConfigMap_zero_def
      SecretOrConfigMap_Validate_def hasCert_def hasKey_def)

text \<open>
  C1, amended. \<open>hasCert\<close> holds when the certificate file or the Cert selector is
  present, \<open>hasKey\<close> when the key file or the key secret is. For a TLS configuration
  that passes the three mutual-exclusion checks and whose CA and Cert selectors are
  themselves valid, validation fails exactly when \<open>hasCert\<close> and \<open>hasKey\<close> differ,
  with the error that names the missing side. The checks run in the order CA conflict,
  CA selector, Cert conflict, Cert selector, Key conflict, completeness, and the first
  one violated gives the error.
\<close>

theorem TLSConfig_Validate_completeness:
  "(hasCert c \<longleftrightarrow> CertFile c \<noteq> '''' \<or> Secret (Cert c) \<noteq> None \<or> ConfigMap (Cert c) \<noteq> None)
   \<and> (hasKey c \<longleftrightarrow> KeyFile c \<noteq> '''' \<or> KeySecret c \<noteq> None)
   \<and> (\<not> (CA c \<noteq> SecretOrConfigMap_zero \<and> CAFile c \<noteq> '''')
      \<and> SecretOrConfigMap_Validate (CA c) = None
      \<and> \<not> (Cert c \<noteq> SecretOrConfigMap_zero \<and> CertFile c \<noteq> '''')
      \<and> SecretOrConfigMap_Validate (Cert c) = None
      \<and> \<not> (KeySecret c \<noteq> None \<and> KeyFile c \<noteq> '''')
    \<longrightarrow> TLSConfig_Validate c =
         (if hasCert c \<and> \<not> hasKey c
          then Some (TLSConfigValidationError ''tls config can not specify client cert without client key'')
          else if hasKey c \<and> \<not> hasCert c
          then Some (TLSConfigValidationError ''tls config can not specify client key without client cert'')
          else None))
   \<and> (CA c \<noteq> SecretOrConfigMap_zero \<and> CAFile c \<noteq> ''''
    \<longrightarrow> TLSConfig_Validate c =
          Some (TLSConfigValidationError ''tls config can not both specify CAFile and CA''))
   \<and> (CAFile c = '''' \<and> SecretOrConfigMap_Validate (CA c) \<noteq> None
    \<longrightarrow> TLSConfig_Validate c = Some (TLSConfigValidationError ''tls config CA is invalid''))
   \<and> (\<not> (CA c \<noteq> SecretOrConfigMap_zero \<and> CAFile c \<noteq> '''')
      \<and> SecretOrConfigMap_Validate (CA c) = None
      \<and> Cert c \<noteq> SecretOrConfigMap_zero \<and> CertFile c \<noteq> ''''
    \<longrightarrow> TLSConfig_Validate c =
          Some (TLSConfigValidationError ''tls config can not both specify CertFile and Cert''))
   \<and> (\<not> (CA c \<noteq> SecretOrConfigMap_zero \<and> CAFile c \<noteq> '''')
      \<and> SecretOrConfigMap_Validate (CA c) = None
      \<and> CertFile c = '''' \<and> SecretOrConfigMap_Validate (Cert c) \<noteq> None
    \<longrightarrow> TLSConfig_Validate c = Some (TLSConfigValidationError ''tls config Cert is invalid''))
   \<and> (\<not> (CA c \<noteq> SecretOrConfigMap_zero \<and> CAFile c \<noteq> '''')
      \<and> SecretOrConfigMap_Validate (CA c) = None
      \<and> \<not> (Cert c \<noteq> SecretOrConfigMap_zero \<and> CertFile c \<noteq> '''')
      \<and> SecretOrConfigMap_Validate (Cert c) = None
      \<and> KeySecret c \<noteq> None \<and> KeyFile c \<noteq> ''''
    \<longrightarrow> TLSConfig_Validate c =
          Some (TLSConfigValidationError ''tls config can not both specify KeyFile and KeySecret''))"
proof (intro conjI)
  have invalid_not_zero: "x \<noteq> SecretOrConfigMap_zero" if "SecretOrConfigMap_Validate x \<noteq> None" for x
    using that by (auto simp add: SecretOrConfigMap_Validate_def SecretOrConfigMap_zero_def)
  show "hasCert c \<longleftrightarrow> CertFile c \<noteq> '''' \<or> Secret (Cert c) \<noteq> None \<or> ConfigMap (Cert c) \<noteq> None"
    by (simp add: hasCert_def SecretOrConfigMap_zero_iff)
  show "hasKey c \<longleftrightarrow> KeyFile c \<noteq> '''' \<or> KeySecret c \<noteq> None"
    by (simp add: hasKey_def)
  show "CAFile c = '''' \<and> SecretOrConfigMap_Validate (CA c) \<noteq> None
    \<longrightarrow> TLSConfig_Validate c = Some (TLSConfigValidationError ''tls config CA is invalid'')"
    using invalid_not_zero [of "CA c"] by (simp add: TLSConfig_Validate_def)
  show "\<not> (CA c \<noteq> SecretOrConfigMap_zero \<and> CAFile c \<noteq> '''')
      \<and> SecretOrConfigMap_Validate (CA c) = None
      \<and> CertFile c = '''' \<and> SecretOrConfigMap_Validate (Cert c) \<noteq> None
    \<longrightarrow> TLSConfig_Validate c = Some (TLSConfigValidationError ''tls config Cert is invalid'')"
    using invalid_not_zero [of "Cert c"] by (simp add: TLSConfig_Validate_def)
qed (simp_all add: TLSConfig_Validate_def)

text \<open>
  C1, amended, at a configuration with a CA secret and a certificate file but no key,
  and at one with a key secret but no certificate.
\<close>

theorem TLSConfig_Validate_completeness_witness:
  "TLSConfig_Validate
     \<lparr>CA = \<lparr>Secret = Some (SecretKeySelector ''ca'' ''ca.crt'' None), ConfigMap = None\<rparr>,
      Cert = \<lparr>Secret = None, ConfigMap = None\<rparr>,
      KeySecret = None, ServerName = '''', InsecureSkipVerify = False,
      CAFile = '''', CertFile = ''/etc/cert.pem'', KeyFile = ''''\<rparr>
     = Some (TLSConfigValidationError ''tls config can not specify client cert without client key'')
   \<and> TLSConfig_Validate
     \<lparr>CA = \<lparr>Secret = None, ConfigMap = None\<rparr>,
      Cert = \<lparr>Secret = None, ConfigMap = None\<rparr>,
      KeySecret = Some (SecretKeySelector ''tls'' ''tls.key'' None),
      ServerName = '''', InsecureSkipVerify = False,
      CAFile = '''', CertFile = '''', KeyFile = ''''\<rparr>
     = Some (TLSConfigValidationError ''tls config can not specify client key without client cert'')"
  using TLSConfig_Validate_completeness
    [of "\<lparr>CA = \<lparr>Secret = Some (SecretKeySelector ''ca'' ''ca.crt'' None), ConfigMap = None\<rparr>,
      Cert = \<lparr>Secret = None, ConfigMap = None\<rparr>,
      KeySecret = None, ServerName = '''', InsecureSkipVerify = False,
      CAFile = '''', CertFile = ''/etc/cert.pem'', KeyFile = ''''\<rparr>"]
    TLSConfig_Validate_completeness
    [of "\<lparr>CA = \<lparr>Secret = None, ConfigMap = None\<rparr>,
      Cert = \<lparr>Secret = None, ConfigMap = None\<rparr>,
      KeySecret = Some (SecretKeySelector ''tls'' ''tls.key'' None),
      ServerName = '''', InsecureSkipVerify = False,
      CAFile = '''', CertFile = '''', KeyFile = ''''\<rparr>"]
  by (simp add: SecretOrConfigMap_Validate_def SecretOrConfigMap_zero_def)

subsection \<open>OAuth2\<close>

text \<open>
  C7. Validation of an OAuth2 section fails with the missing-token-URL error whenever
  the token URL is empty, whatever the other fields hold. Otherwise, when the client
  id names neither a secret nor a config map, it fails with the missing-client-id
  error. Otherwise its result is that of the validation of the client id selector, a
  failure being wrapped as an OAuth2 error whose message starts with
  \<^verbatim>\<open>invalid OAuth2 client id: \<close>.
\<close>

theorem OAuth2_Validate_rules:
  "(TokenURL oa = '''' \<longrightarrow>
      OAuth2_Validate oa = Some (OAuth2ValidationError ''OAuth2 token url must be specified''))
   \<and> (TokenURL oa \<noteq> '''' \<and> Secret (ClientID oa) = None \<and> ConfigMap (ClientID oa) = None \<longrightarrow>
      OAuth2_Validate oa = Some (OAuth2ValidationError ''OAuth2 client id must be specified''))
   \<and> (TokenURL oa \<noteq> '''' \<and> \<not> (Secret (ClientID oa) = None \<and> ConfigMap (ClientID oa) = None) \<longrightarrow>
      OAuth2_Validate oa =
        map_option (\<lambda>err. OAuth2ValidationError (''invalid OAuth2 client id: '' @ Error err))
          (SecretOrConfigMap_Validate (ClientID oa)))"
  by (auto simp add: OAuth2_Validate_def SecretOrConfigMap_zero_iff split: option.splits)

text \<open>
  C7 at a section without token URL, and at one with a token URL whose client id
  names both a secret and a config map.
\<close>

theorem OAuth2_Validate_rules_witness:
  "OAuth2_Validate
     \<lparr>ClientID = \<lparr>Secret = Some (SecretKeySelector ''oauth'' ''id'' None), ConfigMap = None\<rparr>,
      ClientSecret = SecretKeySelector ''oauth'' ''secret'' None,
      TokenURL = '''', Scopes = [], EndpointParams = Map.empty\<rparr>
     = Some (OAuth2ValidationError ''OAuth2 token url must be specified'')
   \<and> OAuth2_Validate
     \<lparr>ClientID = \<lparr>Secret = Some (SecretKeySelector ''oauth'' ''id'' None),
                   ConfigMap = Some (ConfigMapKeySelector ''oauth'' ''id'' None)\<rparr>,
      ClientSecret = SecretKeySelector ''oauth'' ''secret'' None,
      TokenURL = ''https://example.com/token'', Scopes = [], EndpointParams = Map.empty\<rparr>
     = Some (OAuth2ValidationError
         ''invalid OAuth2 client id: SecretOrConfigMap can not specify both Secret and ConfigMap'')"
  using OAuth2_Validate_rules
    [of "\<lparr>ClientID = \<lparr>Secret = Some (SecretKeySelector ''oauth'' ''id'' None), ConfigMap = None\<rparr>,
      ClientSecret = SecretKeySelector ''oauth'' ''secret'' None,
      TokenURL = '''', Scopes = [], EndpointParams = Map.empty\<rparr>"]
    OAuth2_Validate_rules
    [of "\<lparr>ClientID = \<lparr>Secret = Some (SecretKeySelector ''oauth'' ''id'' None),
                   ConfigMap = Some (ConfigMapKeySelector ''oauth'' ''id'' None)\<rparr>,
      ClientSecret = SecretKeySelector ''oauth'' ''secret'' None,
      TokenURL = ''https://example.com/token'', Scopes = [], EndpointParams = Map.empty\<rparr>"]
  by (simp add: SecretOrConfigMap_Validate_def)

subsection \<open>SafeAuthorization and Authorization\<close>






subsection \<open>ProbeTargets\<close>

text \<open>
  C8. Validation of the probe targets fails, with the error that no target source is
  given, if and only if neither the static configuration nor the ingress is populated;
  with one of them, or with both, it succeeds.
\<close>

theorem ProbeTargets_Validate_fails_iff_neither:
  "(ProbeTargets_Validate it =
      Some (ProbeTargetsValidationError
        ''at least one of .spec.targets.staticConfig and .spec.targets.ingress is required'')
    \<longleftrightarrow> StaticConfig it = None \<and> Ingress it = None)
   \<and> (ProbeTargets_Validate it = None \<longleftrightarrow> \<not> (StaticConfig it = None \<and> Ingress it = None))"
  by (simp add: ProbeTargets_Validate_def)

text \<open>
  C8 at four targets, the static configuration being a list of hosts and the ingress a
  namespace: neither, the static configuration alone, the ingress alone, both.
\<close>

theorem ProbeTargets_Validate_fails_iff_neither_witness:
  "ProbeTargets_Validate \<lparr>StaticConfig = None :: string list option, Ingress = None :: string option\<rparr>
     = Some (ProbeTargetsValidationError
         ''at least one of .spec.targets.staticConfig and .spec.targets.ingress is required'')
   \<and> ProbeTargets_Validate \<lparr>StaticConfig = Some [''example.com''], Ingress = None :: string option\<rparr> = None
   \<and> ProbeTargets_Validate \<lparr>StaticConfig = None :: string list option, Ingress = Some ''default''\<rparr> = None
   \<and> ProbeTargets_Validate \<lparr>StaticConfig = Some [''example.com''], Ingress = Some ''default''\<rparr> = None"
  using ProbeTargets_Validate_fails_iff_neither
      [of "\<lparr>StaticConfig = None :: string list option, Ingress = None :: string option\<rparr>"]
    ProbeTargets_Validate_fails_iff_neither
      [of "\<lparr>StaticConfig = Some [''example.com''], Ingress = None :: string option\<rparr>"]
    ProbeTargets_Validate_fails_iff_neither
      [of "\<lparr>StaticConfig = None :: string list option, Ingress = Some ''default''\<rparr>"]
    ProbeTargets_Validate_fails_iff_neither
      [of "\<lparr>StaticConfig = Some [''example.com''], Ingress = Some ''default''\<rparr>"]
  by simp

subsection \<open>ObjectReference\<close>

text \<open>
  C9. For a reference whose resource is a key of the table \<open>resourceToKind\<close>,
  \<open>GroupKind\<close> returns the kind that the table associates with the resource (and the
  group of the reference). For a resource that is not a key of the table it panics.
  The outcome is a function of the reference: equal references give equal outcomes.
\<close>

theorem GroupKind_table:
  "((Resource obj, k) \<in> set resourceToKind \<longrightarrow>
      GroupKind obj = Inr \<lparr>schema_GroupKind.Group = getGroup obj, Kind = k\<rparr>)
   \<and> (Resource obj \<notin> fst ` set resourceToKind \<longrightarrow>
      GroupKind obj = Inl (FailedToMapResource (Resource obj)))"
proof (intro conjI impI)
  assume "(Resource obj, k) \<in> set resourceToKind"
  with distinct_resourceToKind have "map_of resourceToKind (Resource obj) = Some k"
    by (rule map_of_is_SomeI)
  then show "GroupKind obj = Inr \<lparr>schema_GroupKind.Group = getGroup obj, Kind = k\<rparr>"
    by (simp add: GroupKind_def map_found_def map_index_def)
next
  assume "Resource obj \<notin> fst ` set resourceToKind"
  then have "map_of resourceToKind (Resource obj) = None"
    by (simp add: map_of_eq_None_iff)
  then show "GroupKind obj = Inl (FailedToMapResource (Resource obj))"
    by (simp add: GroupKind_def map_found_def)
qed

text \<open>
  C9 at a reference to \<^verbatim>\<open>customprometheusrules\<close> without group, and at a reference
  to a resource named \<^verbatim>\<open>rules\<close>.
\<close>

theorem GroupKind_table_witness:
  "GroupKind \<lparr>Group = '''', Resource = ''customprometheusrules'', Namespace = ''default'', Name = ''''\<rparr>
     = Inr \<lparr>schema_GroupKind.Group = ''monitoring.coreos.com'', Kind = ''CustomPrometheusRule''\<rparr>
   \<and> GroupKind \<lparr>Group = '''', Resource = ''rules'', Namespace = ''default'', Name = ''''\<rparr>
     = Inl (FailedToMapResource ''rules'')"
  using GroupKind_table
      [of "\<lparr>Group = '''', Resource = ''customprometheusrules'', Namespace = ''default'', Name = ''''\<rparr>"
        "''CustomPrometheusRule''"]
    GroupKind_table
      [of "\<lparr>Group = '''', Resource = ''rules'', Namespace = ''default'', Name = ''''\<rparr>"]
  by (simp add: resourceToKind_def resource_names PrometheusRuleKind_def getGroup_def GroupName_def)

text \<open>
  C10. The resource name \<^verbatim>\<open>prometheusrules\<close> is among the values that the marker on
  the \<^verbatim>\<open>Resource\<close> field allows, and it is not a key of \<open>resourceToKind\<close>, whose
  key for rules is \<^verbatim>\<open>customprometheusrules\<close>. So \<open>GroupKind\<close> panics on a reference
  that satisfies every marker of \<^verbatim>\<open>ObjectReference\<close>.
\<close>

theorem prometheusrules_schema_valid_panics:
  "''prometheusrules'' \<in> set Resource_Enum
   \<and> ''prometheusrules'' \<notin> fst ` set resourceToKind
   \<and> (''customprometheusrules'', ''CustomPrometheusRule'') \<in> set resourceToKind
   \<and> schema_valid ref_prometheusrules
   \<and> Resource ref_prometheusrules = ''prometheusrules''
   \<and> GroupKind ref_prometheusrules = Inl (FailedToMapResource ''prometheusrules'')"
  by (simp add: Resource_Enum_def Group_Enum_def resourceToKind_def resource_names
      schema_valid_def ref_prometheusrules_def GroupKind_def map_found_def PrometheusRuleKind_def)

end
